theory Spec2Isabelle
  imports Complex_Main
begin

section \<open>Python values and errors\<close>

text \<open>
  The containers of \<^verbatim>\<open>mexca/data.py\<close> hold values that Python types dynamically.
  A value is \<^verbatim>\<open>None\<close>, a boolean, an integer, a float, the float \<^verbatim>\<open>nan\<close>, a
  string, a list or a dictionary with string keys. Floats are modelled as exact rationals:
  rounding inside the floating-point unit is not part of this development.
\<close>

datatype pyval =
    PNone
  | PBool bool
  | PInt int
  | PFloat rat
  | PNaN
  | PStr string
  | PList "pyval list"
  | PDict "(string \<times> pyval) list"

datatype error =
  TypeError | KeyError | ValueError | IndexError | ZeroDivisionError | AttributeError

text \<open>
  The numeric reading of a value, as Python's \<^verbatim>\<open>==\<close> between numbers uses it:
  \<^verbatim>\<open>1 == 1.0\<close> and \<^verbatim>\<open>True == 1\<close> hold.
\<close>

fun num_of :: "pyval \<Rightarrow> rat option" where
  "num_of (PInt n) = Some (of_int n)"
| "num_of (PFloat q) = Some q"
| "num_of (PBool b) = Some (if b then 1 else 0)"
| "num_of _ = None"

section \<open>Per-frame containers and their JSON record files\<close>

text \<open>
  A JSON record file holds one object whose keys are field names and whose values are
  arrays: \<^verbatim>\<open>{field_name: [values...]}\<close>. It is modelled as a map from keys to lists of
  values; \<^verbatim>\<open>json.dump\<close> followed by \<^verbatim>\<open>json.load\<close> is the identity on such objects
  (with \<^verbatim>\<open>allow_nan=True\<close> the float \<^verbatim>\<open>nan\<close> is written and read back as \<^verbatim>\<open>NaN\<close>).
\<close>

type_synonym pydict = "string \<rightharpoonup> pyval list"

record VideoAnnotation =
  va_frame :: "pyval list"
  va_time :: "pyval list"
  face_box :: "pyval list"
  face_prob :: "pyval list"
  face_landmarks :: "pyval list"
  face_aus :: "pyval list"
  face_label :: "pyval list"
  face_confidence :: "pyval list"

text \<open>\<^verbatim>\<open>field(default_factory=list)\<close>: a keyword that is not passed gives the empty list.\<close>

definition field_or_default :: "pydict \<Rightarrow> string \<Rightarrow> pyval list" where
  "field_or_default d k = (case d k of None \<Rightarrow> [] | Some v \<Rightarrow> v)"

definition VideoAnnotation_field_names :: "string list" where
  "VideoAnnotation_field_names =
     [''frame'', ''time'', ''face_box'', ''face_prob'', ''face_landmarks'', ''face_aus'',
      ''face_label'', ''face_confidence'']"

text \<open>\<^verbatim>\<open>{k: v for k, v in data.items() if k in field_names}\<close>\<close>

definition filter_fields :: "string list \<Rightarrow> pydict \<Rightarrow> pydict" where
  "filter_fields names data = (\<lambda>k. if k \<in> set names then data k else None)"

text \<open>\<^verbatim>\<open>cls(**filtered_data)\<close> for \<^verbatim>\<open>VideoAnnotation\<close>: every field has a default.\<close>

definition VideoAnnotation_init :: "pydict \<Rightarrow> VideoAnnotation" where
  "VideoAnnotation_init kw =
     \<lparr> va_frame = field_or_default kw ''frame'',
       va_time = field_or_default kw ''time'',
       face_box = field_or_default kw ''face_box'',
       face_prob = field_or_default kw ''face_prob'',
       face_landmarks = field_or_default kw ''face_landmarks'',
       face_aus = field_or_default kw ''face_aus'',
       face_label = field_or_default kw ''face_label'',
       face_confidence = field_or_default kw ''face_confidence'' \<rparr>"

definition VideoAnnotation_from_dict :: "pydict \<Rightarrow> VideoAnnotation" where
  "VideoAnnotation_from_dict data =
     VideoAnnotation_init (filter_fields VideoAnnotation_field_names data)"

text \<open>\<^verbatim>\<open>dataclasses.asdict\<close>: the fields in declaration order.\<close>

definition VideoAnnotation_asdict :: "VideoAnnotation \<Rightarrow> (string \<times> pyval list) list" where
  "VideoAnnotation_asdict va =
     [(''frame'', va_frame va), (''time'', va_time va), (''face_box'', face_box va),
      (''face_prob'', face_prob va), (''face_landmarks'', face_landmarks va),
      (''face_aus'', face_aus va), (''face_label'', face_label va),
      (''face_confidence'', face_confidence va)]"

text \<open>The content of the file that \<^verbatim>\<open>write_json\<close> leaves, and \<^verbatim>\<open>from_json\<close> of a content.\<close>

definition VideoAnnotation_write_json :: "VideoAnnotation \<Rightarrow> pydict" where
  "VideoAnnotation_write_json va = map_of (VideoAnnotation_asdict va)"

definition VideoAnnotation_from_json :: "pydict \<Rightarrow> VideoAnnotation" where
  "VideoAnnotation_from_json content = VideoAnnotation_from_dict content"

record VoiceFeatures =
  vf_frame :: "pyval list"
  vf_time :: "pyval list"
  pitch_f0 :: "pyval list"

definition VoiceFeatures_field_names :: "string list" where
  "VoiceFeatures_field_names = [''frame'', ''time'', ''pitch_f0'']"

text \<open>
  \<^verbatim>\<open>cls(**filtered_data)\<close> for \<^verbatim>\<open>VoiceFeatures\<close>: \<^verbatim>\<open>frame\<close> and \<^verbatim>\<open>time\<close> have no
  default, and a call without one of them raises \<^verbatim>\<open>TypeError\<close>.
\<close>

definition VoiceFeatures_init :: "pydict \<Rightarrow> error + VoiceFeatures" where
  "VoiceFeatures_init kw =
     (case kw ''frame'' of
        None \<Rightarrow> Inl TypeError
      | Some f \<Rightarrow>
          (case kw ''time'' of
             None \<Rightarrow> Inl TypeError
           | Some t \<Rightarrow>
               Inr \<lparr> vf_frame = f, vf_time = t,
                     pitch_f0 = field_or_default kw ''pitch_f0'' \<rparr>))"

definition VoiceFeatures_from_dict :: "pydict \<Rightarrow> error + VoiceFeatures" where
  "VoiceFeatures_from_dict data =
     VoiceFeatures_init (filter_fields VoiceFeatures_field_names data)"

definition VoiceFeatures_asdict :: "VoiceFeatures \<Rightarrow> (string \<times> pyval list) list" where
  "VoiceFeatures_asdict vf =
     [(''frame'', vf_frame vf), (''time'', vf_time vf), (''pitch_f0'', pitch_f0 vf)]"

definition VoiceFeatures_write_json :: "VoiceFeatures \<Rightarrow> pydict" where
  "VoiceFeatures_write_json vf = map_of (VoiceFeatures_asdict vf)"

definition VoiceFeatures_from_json :: "pydict \<Rightarrow> error + VoiceFeatures" where
  "VoiceFeatures_from_json content = VoiceFeatures_from_dict content"

record Sentiment =
  sent_index :: pyval
  pos :: pyval
  neg :: pyval
  neu :: pyval

record SentimentAnnotation =
  sentiment_list :: "Sentiment list"

definition SentimentAnnotation_field_names :: "string list" where
  "SentimentAnnotation_field_names = [''sentiment'']"

text \<open>
  \<^verbatim>\<open>Sentiment(index=s['index'], pos=s['pos'], neg=s['neg'], neu=s['neu'])\<close>: subscripting
  with a string raises \<^verbatim>\<open>KeyError\<close> on a dictionary without the key and \<^verbatim>\<open>TypeError\<close>
  on a value that is not a dictionary.
\<close>

definition subscript :: "pyval \<Rightarrow> string \<Rightarrow> error + pyval" where
  "subscript s k =
     (case s of
        PDict kvs \<Rightarrow> (case map_of kvs k of None \<Rightarrow> Inl KeyError | Some v \<Rightarrow> Inr v)
      | _ \<Rightarrow> Inl TypeError)"

definition Sentiment_of_item :: "pyval \<Rightarrow> error + Sentiment" where
  "Sentiment_of_item s =
     (case subscript s ''index'' of Inl e \<Rightarrow> Inl e | Inr i \<Rightarrow>
     (case subscript s ''pos'' of Inl e \<Rightarrow> Inl e | Inr p \<Rightarrow>
     (case subscript s ''neg'' of Inl e \<Rightarrow> Inl e | Inr n \<Rightarrow>
     (case subscript s ''neu'' of Inl e \<Rightarrow> Inl e | Inr u \<Rightarrow>
        Inr \<lparr> sent_index = i, pos = p, neg = n, neu = u \<rparr>))))"

text \<open>The list comprehension stops at the first item that raises.\<close>

fun Sentiment_of_items :: "pyval list \<Rightarrow> error + Sentiment list" where
  "Sentiment_of_items [] = Inr []"
| "Sentiment_of_items (s # ss) =
     (case Sentiment_of_item s of
        Inl e \<Rightarrow> Inl e
      | Inr x \<Rightarrow> (case Sentiment_of_items ss of Inl e \<Rightarrow> Inl e | Inr xs \<Rightarrow> Inr (x # xs)))"

text \<open>\<^verbatim>\<open>filtered_data['sentiment']\<close> raises \<^verbatim>\<open>KeyError\<close> when the key is missing.\<close>

definition SentimentAnnotation_from_dict :: "pydict \<Rightarrow> error + SentimentAnnotation" where
  "SentimentAnnotation_from_dict data =
     (case filter_fields SentimentAnnotation_field_names data ''sentiment'' of
        None \<Rightarrow> Inl KeyError
      | Some items \<Rightarrow>
          (case Sentiment_of_items items of
             Inl e \<Rightarrow> Inl e
           | Inr xs \<Rightarrow> Inr \<lparr> sentiment_list = xs \<rparr>))"

text \<open>\<^verbatim>\<open>asdict\<close> turns each nested \<^verbatim>\<open>Sentiment\<close> into a dictionary of its fields.\<close>

definition Sentiment_asdict :: "Sentiment \<Rightarrow> pyval" where
  "Sentiment_asdict s =
     PDict [(''index'', sent_index s), (''pos'', pos s), (''neg'', neg s), (''neu'', neu s)]"

definition SentimentAnnotation_asdict :: "SentimentAnnotation \<Rightarrow> (string \<times> pyval list) list" where
  "SentimentAnnotation_asdict sa = [(''sentiment'', map Sentiment_asdict (sentiment_list sa))]"

definition SentimentAnnotation_write_json :: "SentimentAnnotation \<Rightarrow> pydict" where
  "SentimentAnnotation_write_json sa = map_of (SentimentAnnotation_asdict sa)"

definition SentimentAnnotation_from_json :: "pydict \<Rightarrow> error + SentimentAnnotation" where
  "SentimentAnnotation_from_json content = SentimentAnnotation_from_dict content"

section \<open>Speaker segments and their RTTM files\<close>

text \<open>
  An \<^verbatim>\<open>intervaltree.Interval\<close> is a named tuple of \<^verbatim>\<open>begin\<close>, \<^verbatim>\<open>end\<close> and \<^verbatim>\<open>data\<close>.
  A speech segment is an interval whose \<^verbatim>\<open>data\<close> is a \<^verbatim>\<open>SegmentData\<close>. The reader of
  RTTM files stores \<^verbatim>\<open>None\<close> as file name when the cell is \<^verbatim>\<open><NA>\<close>, so that field is
  optional here.
\<close>

record SegmentData =
  sd_filename :: "string option"
  channel :: int
  name :: "string option"
  conf :: "rat option"

record 'd Interval =
  iv_begin :: rat
  iv_end :: rat
  iv_data :: 'd

text \<open>
  A \<^verbatim>\<open>SpeakerAnnotation\<close> is an \<^verbatim>\<open>IntervalTree\<close>: a set of intervals. The list gives the
  order in which the tree is iterated. \<^verbatim>\<open>add\<close> leaves out an interval the tree already
  holds and raises \<^verbatim>\<open>ValueError\<close> on a null interval (\<^verbatim>\<open>begin >= end\<close>).
\<close>

type_synonym SpeakerAnnotation = "SegmentData Interval list"

definition IntervalTree_add :: "'a list \<Rightarrow> 'a \<Rightarrow> bool \<Rightarrow> error + 'a list" where
  "IntervalTree_add tree iv is_null =
     (if List.member tree iv then Inr tree
      else if is_null then Inl ValueError
      else Inr (tree @ [iv]))"

subsection \<open>Printing and parsing numbers\<close>

definition digit_char :: "nat \<Rightarrow> char" where
  "digit_char d = ''0123456789'' ! d"

fun str_nat :: "nat \<Rightarrow> string" where
  "str_nat n = (if n < 10 then [digit_char n] else str_nat (n div 10) @ [digit_char (n mod 10)])"

definition str_int :: "int \<Rightarrow> string" where
  "str_int i = (if i < 0 then CHR ''-'' # str_nat (nat (- i)) else str_nat (nat i))"

text \<open>\<^verbatim>\<open>round(col, 2)\<close> in hundredths: to the nearest, a tie to the even neighbour.\<close>

definition round_hundredths :: "rat \<Rightarrow> int" where
  "round_hundredths q =
     (let f = \<lfloor>q * 100\<rfloor>; r = q * 100 - of_int f
      in if r < 1 / 2 then f else if 1 / 2 < r then f + 1 else if even f then f else f + 1)"

text \<open>
  \<^verbatim>\<open>str\<close> of a float with at most two decimals, below \<^verbatim>\<open>1e16\<close> in size: the integer part,
  a point, and one or two decimals.
\<close>

definition str_hundredths :: "int \<Rightarrow> string" where
  "str_hundredths h =
     (let a = nat \<bar>h\<bar> in
      (if h < 0 then ''-'' else []) @ str_nat (a div 100) @ ''.'' @
      (if a mod 10 = 0 then [digit_char (a mod 100 div 10)]
       else [digit_char (a mod 100 div 10), digit_char (a mod 10)]))"

definition digit_val :: "char \<Rightarrow> nat option" where
  "digit_val c =
     map_of [(CHR ''0'', 0), (CHR ''1'', 1), (CHR ''2'', 2), (CHR ''3'', 3), (CHR ''4'', 4),
             (CHR ''5'', 5), (CHR ''6'', 6), (CHR ''7'', 7), (CHR ''8'', 8), (CHR ''9'', 9)] c"

fun digits_val :: "nat \<Rightarrow> string \<Rightarrow> nat option" where
  "digits_val acc [] = Some acc"
| "digits_val acc (c # cs) =
     (case digit_val c of None \<Rightarrow> None | Some d \<Rightarrow> digits_val (10 * acc + d) cs)"

definition parse_nat :: "string \<Rightarrow> nat option" where
  "parse_nat s = (if s = [] then None else digits_val 0 s)"

text \<open>\<^verbatim>\<open>int(cell)\<close> on a plain decimal literal; \<^verbatim>\<open>int(None)\<close> raises \<^verbatim>\<open>TypeError\<close>.\<close>

definition py_int :: "string option \<Rightarrow> error + int" where
  "py_int cell =
     (case cell of
        None \<Rightarrow> Inl TypeError
      | Some s \<Rightarrow>
          (case s of
             c # cs \<Rightarrow>
               (if c = CHR ''-''
                then (case parse_nat cs of None \<Rightarrow> Inl ValueError | Some n \<Rightarrow> Inr (- int n))
                else (case parse_nat s of None \<Rightarrow> Inl ValueError | Some n \<Rightarrow> Inr (int n)))
           | [] \<Rightarrow> Inl ValueError))"

text \<open>\<^verbatim>\<open>float(cell)\<close> on a plain decimal literal, with or without a fraction.\<close>

definition parse_decimal :: "string \<Rightarrow> rat option" where
  "parse_decimal s =
     (let ip = takeWhile (\<lambda>c. c \<noteq> CHR ''.'') s;
          fp = drop 1 (dropWhile (\<lambda>c. c \<noteq> CHR ''.'') s)
      in if ip = [] \<and> fp = [] then None
         else (case digits_val 0 ip of
                 None \<Rightarrow> None
               | Some a \<Rightarrow>
                   (case digits_val 0 fp of
                      None \<Rightarrow> None
                    | Some b \<Rightarrow> Some (of_nat a + of_nat b / 10 ^ length fp))))"

definition py_float :: "string option \<Rightarrow> error + rat" where
  "py_float cell =
     (case cell of
        None \<Rightarrow> Inl TypeError
      | Some s \<Rightarrow>
          (case s of
             c # cs \<Rightarrow>
               (if c = CHR ''-''
                then (case parse_decimal cs of None \<Rightarrow> Inl ValueError | Some q \<Rightarrow> Inr (- q))
                else (case parse_decimal s of None \<Rightarrow> Inl ValueError | Some q \<Rightarrow> Inr q))
           | [] \<Rightarrow> Inl ValueError))"

subsection \<open>Writing\<close>

text \<open>
  The values that \<^verbatim>\<open>__str__\<close> prints for one segment, and how it prints each:
  \<^verbatim>\<open>None\<close> as \<^verbatim>\<open><NA>\<close>, a float rounded to two decimals, anything else as it is.
\<close>

datatype col = CStr string | CInt int | CFloat rat | CNone

definition opt_col :: "('a \<Rightarrow> col) \<Rightarrow> 'a option \<Rightarrow> col" where
  "opt_col f x = (case x of None \<Rightarrow> CNone | Some v \<Rightarrow> f v)"

definition segment_cols :: "SegmentData Interval \<Rightarrow> col list" where
  "segment_cols seg =
     [CStr ''SPEAKER'', opt_col CStr (sd_filename (iv_data seg)), CInt (channel (iv_data seg)),
      CFloat (iv_begin seg), CFloat (iv_end seg), CNone, CNone, CNone,
      opt_col CStr (name (iv_data seg)), opt_col CFloat (conf (iv_data seg))]"

fun print_col :: "col \<Rightarrow> string" where
  "print_col CNone = ''<NA>''"
| "print_col (CFloat q) = str_hundredths (round_hundredths q)"
| "print_col (CInt i) = str_int i"
| "print_col (CStr s) = s"

text \<open>
  \<^verbatim>\<open>write_rttm\<close> calls \<^verbatim>\<open>__str__\<close> with \<^verbatim>\<open>end=" "\<close> and \<^verbatim>\<open>header=False\<close>: every value is
  followed by a space, and every segment by a line break. The file is the list of its lines.
\<close>

definition rttm_line :: "SegmentData Interval \<Rightarrow> string" where
  "rttm_line seg = concat (map (\<lambda>c. print_col c @ '' '') (segment_cols seg)) @ [CHR 0x0A]"

definition write_rttm :: "SpeakerAnnotation \<Rightarrow> string list" where
  "write_rttm tree = map rttm_line tree"

subsection \<open>Reading\<close>

text \<open>\<^verbatim>\<open>row.split(" ")\<close>\<close>

fun split_on :: "char \<Rightarrow> string \<Rightarrow> string list" where
  "split_on sep [] = [[]]"
| "split_on sep (c # cs) =
     (if c = sep then [] # split_on sep cs
      else (case split_on sep cs of w # ws \<Rightarrow> (c # w) # ws | [] \<Rightarrow> [[c]]))"

definition row_split :: "string \<Rightarrow> string option list" where
  "row_split row = map (\<lambda>cell. if cell = ''<NA>'' then None else Some cell) (split_on CHR '' '' row)"

definition cell_at :: "'a list \<Rightarrow> nat \<Rightarrow> error + 'a" where
  "cell_at xs i = (if i < length xs then Inr (xs ! i) else Inl IndexError)"

text \<open>
  One row of \<^verbatim>\<open>from_rttm\<close>. The arguments of \<^verbatim>\<open>Interval\<close> are evaluated from left to right:
  cell 3 twice and cell 4 as floats, cell 1, cell 2 as an integer, cell 7.
\<close>

definition segment_of_row :: "string \<Rightarrow> error + SegmentData Interval" where
  "segment_of_row row =
     (let cells = row_split row in
      case cell_at cells 3 of Inl e \<Rightarrow> Inl e | Inr c3 \<Rightarrow>
     (case py_float c3 of Inl e \<Rightarrow> Inl e | Inr b \<Rightarrow>
     (case cell_at cells 4 of Inl e \<Rightarrow> Inl e | Inr c4 \<Rightarrow>
     (case py_float c4 of Inl e \<Rightarrow> Inl e | Inr d \<Rightarrow>
     (case cell_at cells 1 of Inl e \<Rightarrow> Inl e | Inr c1 \<Rightarrow>
     (case cell_at cells 2 of Inl e \<Rightarrow> Inl e | Inr c2 \<Rightarrow>
     (case py_int c2 of Inl e \<Rightarrow> Inl e | Inr ch \<Rightarrow>
     (case cell_at cells 7 of Inl e \<Rightarrow> Inl e | Inr c7 \<Rightarrow>
        Inr \<lparr> iv_begin = b, iv_end = b + d,
              iv_data = \<lparr> sd_filename = c1, channel = ch, name = c7, conf = None \<rparr> \<rparr>))))))))"

fun from_rttm_rows :: "SpeakerAnnotation \<Rightarrow> string list \<Rightarrow> error + SpeakerAnnotation" where
  "from_rttm_rows tree [] = Inr tree"
| "from_rttm_rows tree (row # rows) =
     (case segment_of_row row of
        Inl e \<Rightarrow> Inl e
      | Inr seg \<Rightarrow>
          (case IntervalTree_add tree seg (iv_end seg \<le> iv_begin seg) of
             Inl e \<Rightarrow> Inl e
           | Inr tree' \<Rightarrow> from_rttm_rows tree' rows))"

definition from_rttm :: "string list \<Rightarrow> error + SpeakerAnnotation" where
  "from_rttm file = from_rttm_rows [] file"


section \<open>Transcripts\<close>

text \<open>
  \<^verbatim>\<open>AudioTranscription.from_srt\<close> stores every subtitle as an
  \<^verbatim>\<open>Interval(begin, end, data=TranscriptionData(index, text))\<close> in an \<^verbatim>\<open>IntervalTree\<close>, and
  \<^verbatim>\<open>write_srt\<close> reads these fields back. The merge, and \<^verbatim>\<open>mexca/text/sentiment.py\<close>,
  read the elements of \<^verbatim>\<open>subtitles\<close> through the attributes of an \<^verbatim>\<open>srt.Subtitle\<close>:
  \<^verbatim>\<open>start\<close>, \<^verbatim>\<open>end\<close>, \<^verbatim>\<open>content\<close> and \<^verbatim>\<open>index\<close>. The constructor of
  \<^verbatim>\<open>AudioTranscription\<close> stores what it is given, so both kinds of collection are
  modelled: the interval tree that \<^verbatim>\<open>from_srt\<close> builds, and a sequence of subtitles
  (start and end in seconds).
\<close>

record TranscriptionData =
  td_index :: int
  td_text :: string

record Subtitle =
  sub_index :: int
  sub_start :: rat
  sub_end :: rat
  sub_content :: string

datatype subtitle_store =
    Tree "TranscriptionData Interval list"
  | Sequence "Subtitle list"

text \<open>An element that the merge gets out of \<^verbatim>\<open>subtitles\<close>.\<close>

datatype span = IntervalSpan "TranscriptionData Interval" | SubtitleSpan Subtitle

record AudioTranscription =
  at_filename :: string
  subtitles :: "subtitle_store option"

text \<open>\<^verbatim>\<open>__len__\<close>: \<^verbatim>\<open>len(self.subtitles)\<close>, a \<^verbatim>\<open>TypeError\<close> when \<^verbatim>\<open>subtitles\<close> is \<^verbatim>\<open>None\<close>.\<close>

definition AudioTranscription_len :: "AudioTranscription \<Rightarrow> error + nat" where
  "AudioTranscription_len tr =
     (case subtitles tr of
        None \<Rightarrow> Inl TypeError
      | Some (Tree ivs) \<Rightarrow> Inr (length ivs)
      | Some (Sequence subs) \<Rightarrow> Inr (length subs))"

text \<open>
  \<^verbatim>\<open>tree[t]\<close> for a point \<^verbatim>\<open>t\<close>: the stored intervals with \<^verbatim>\<open>begin <= t < end\<close>, in the
  tree's iteration order.
\<close>

definition IntervalTree_at :: "('a \<Rightarrow> rat) \<Rightarrow> ('a \<Rightarrow> rat) \<Rightarrow> 'a list \<Rightarrow> rat \<Rightarrow> 'a list" where
  "IntervalTree_at b e tree t = filter (\<lambda>iv. b iv \<le> t \<and> t < e iv) tree"

text \<open>
  \<^verbatim>\<open>self.transcription.subtitles[t]\<close> with a float \<^verbatim>\<open>t\<close>: the intervals of a tree at the
  point; a list raises \<^verbatim>\<open>TypeError\<close>, its indices must be integers.
\<close>

definition subtitles_at :: "subtitle_store \<Rightarrow> rat \<Rightarrow> error + span list" where
  "subtitles_at store t =
     (case store of
        Tree ivs \<Rightarrow> Inr (map IntervalSpan (IntervalTree_at iv_begin iv_end ivs t))
      | Sequence subs \<Rightarrow> Inl TypeError)"

text \<open>\<^verbatim>\<open>for span in self.transcription.subtitles\<close>\<close>

definition subtitles_iter :: "subtitle_store \<Rightarrow> span list" where
  "subtitles_iter store =
     (case store of Tree ivs \<Rightarrow> map IntervalSpan ivs | Sequence subs \<Rightarrow> map SubtitleSpan subs)"

text \<open>
  The reads \<^verbatim>\<open>span.start\<close>, \<^verbatim>\<open>span.end\<close>, \<^verbatim>\<open>span.content\<close> and \<^verbatim>\<open>span.index\<close>. An
  \<^verbatim>\<open>Interval\<close> has the fields \<^verbatim>\<open>begin\<close>, \<^verbatim>\<open>end\<close> and \<^verbatim>\<open>data\<close> only, so the first of
  these reads raises \<^verbatim>\<open>AttributeError\<close> on it.
\<close>

definition read_span :: "span \<Rightarrow> error + Subtitle" where
  "read_span sp = (case sp of IntervalSpan iv \<Rightarrow> Inl AttributeError | SubtitleSpan s \<Rightarrow> Inr s)"

section \<open>Data frames\<close>

text \<open>
  A \<^verbatim>\<open>pandas.DataFrame\<close> with a default index is a list of column names and a list of
  rows. The tables of the merge are indexed by \<^verbatim>\<open>['frame', 'time']\<close>: each row has its key
  and the cells of the remaining columns.
\<close>

record DataFrame =
  columns :: "string list"
  rows :: "pyval list list"

type_synonym key = "pyval \<times> pyval"

record IndexedFrame =
  icolumns :: "string list"
  irows :: "(key \<times> pyval list) list"

definition same_lengths :: "'a list list \<Rightarrow> bool" where
  "same_lengths cs = (case cs of [] \<Rightarrow> True | c # _ \<Rightarrow> list_all (\<lambda>x. length x = length c) cs)"

text \<open>
  \<^verbatim>\<open>pd.DataFrame(d).set_index(['frame', 'time'])\<close> for a dictionary of lists: the
  constructor raises \<^verbatim>\<open>ValueError\<close> unless all lists have one length, and \<^verbatim>\<open>set_index\<close>
  raises \<^verbatim>\<open>KeyError\<close> when a key column is missing.
\<close>

definition indexed_frame_of_dict :: "(string \<times> pyval list) list \<Rightarrow> error + IndexedFrame" where
  "indexed_frame_of_dict d =
     (if \<not> same_lengths (map snd d) then Inl ValueError
      else
        (case map_of d ''frame'' of
           None \<Rightarrow> Inl KeyError
         | Some fs \<Rightarrow>
             (case map_of d ''time'' of
                None \<Rightarrow> Inl KeyError
              | Some ts \<Rightarrow>
                  (let others = filter (\<lambda>kc. fst kc \<noteq> ''frame'' \<and> fst kc \<noteq> ''time'') d
                   in Inr \<lparr> icolumns = map fst others,
                            irows = map (\<lambda>i. ((fs ! i, ts ! i), map (\<lambda>kc. snd kc ! i) others))
                                      [0..<length fs] \<rparr>))))"

text \<open>
  Keys are compared as pandas compares them in a merge: numbers by value, \<^verbatim>\<open>nan\<close> equal
  to \<^verbatim>\<open>nan\<close>.
\<close>

definition key_norm :: "pyval \<Rightarrow> pyval" where
  "key_norm v = (case num_of v of Some q \<Rightarrow> PFloat q | None \<Rightarrow> v)"

definition same_key :: "key \<Rightarrow> key \<Rightarrow> bool" where
  "same_key k k' = (key_norm (fst k) = key_norm (fst k') \<and> key_norm (snd k) = key_norm (snd k'))"

text \<open>
  \<^verbatim>\<open>pd.merge(left, right, on=['frame', 'time'], how='left')\<close> on two tables indexed by
  frame and time whose other columns have different names: every row of the left table, in
  order, once with each row of the right table under the same key, or once with \<^verbatim>\<open>nan\<close> in
  the right table's columns when there is none.
\<close>

definition left_join_row :: "IndexedFrame \<Rightarrow> key \<times> pyval list \<Rightarrow> (key \<times> pyval list) list" where
  "left_join_row r row =
     (case filter (\<lambda>row'. same_key (fst row) (fst row')) (irows r) of
        [] \<Rightarrow> [(fst row, snd row @ replicate (length (icolumns r)) PNaN)]
      | ms \<Rightarrow> map (\<lambda>row'. (fst row, snd row @ snd row')) ms)"

definition left_join :: "IndexedFrame \<Rightarrow> IndexedFrame \<Rightarrow> IndexedFrame" where
  "left_join l r =
     \<lparr> icolumns = icolumns l @ icolumns r, irows = concat (map (left_join_row r) (irows l)) \<rparr>"

text \<open>\<^verbatim>\<open>reset_index()\<close> turns the two index levels into the first two columns.\<close>

definition reset_index :: "IndexedFrame \<Rightarrow> DataFrame" where
  "reset_index t =
     \<lparr> columns = ''frame'' # ''time'' # icolumns t,
       rows = map (\<lambda>row. fst (fst row) # snd (fst row) # snd row) (irows t) \<rparr>"

text \<open>\<^verbatim>\<open>functools.reduce\<close> over a list that is not empty.\<close>

fun reduce :: "('a \<Rightarrow> 'a \<Rightarrow> 'a) \<Rightarrow> 'a list \<Rightarrow> 'a option" where
  "reduce f [] = None"
| "reduce f (x # xs) = Some (foldl f x xs)"

section \<open>The aggregate and the merge\<close>

record Multimodal =
  filename :: string
  duration :: "rat option"
  fps :: "int option"
  fps_adjusted :: "int option"
  video_annotation :: "VideoAnnotation option"
  audio_annotation :: "SpeakerAnnotation option"
  voice_features :: "VoiceFeatures option"
  transcription :: "AudioTranscription option"
  sentiment :: "SentimentAnnotation option"
  features :: "DataFrame option"

text \<open>\<^verbatim>\<open>__init__\<close>: \<^verbatim>\<open>fps_adjusted\<close> falls back to \<^verbatim>\<open>fps\<close>.\<close>

definition Multimodal_init ::
  "string \<Rightarrow> rat option \<Rightarrow> int option \<Rightarrow> int option \<Rightarrow> VideoAnnotation option \<Rightarrow>
   SpeakerAnnotation option \<Rightarrow> VoiceFeatures option \<Rightarrow> AudioTranscription option \<Rightarrow>
   SentimentAnnotation option \<Rightarrow> DataFrame option \<Rightarrow> Multimodal" where
  "Multimodal_init fname dur f fa va aa vf tr sa feats =
     \<lparr> filename = fname, duration = dur, fps = f,
       fps_adjusted = (case fa of None \<Rightarrow> f | Some x \<Rightarrow> Some x),
       video_annotation = va, audio_annotation = aa, voice_features = vf,
       transcription = tr, sentiment = sa, features = feats \<rparr>"

subsection \<open>The axes\<close>

text \<open>
  \<^verbatim>\<open>np.arange(0, stop, step)\<close> has \<^verbatim>\<open>ceil(stop / step)\<close> elements (none when that is not
  positive), the element \<^verbatim>\<open>i\<close> being \<^verbatim>\<open>i * step\<close>. The frame indices are 32-bit
  integers in the source; they are unbounded here.
\<close>

definition arange_len :: "rat \<Rightarrow> rat \<Rightarrow> nat" where
  "arange_len stop step = nat \<lceil>stop / step\<rceil>"

text \<open>\<^verbatim>\<open>time = np.arange(0.0, self.duration, 1/self.fps_adjusted, dtype=np.float32)\<close>\<close>

definition time_axis :: "rat \<Rightarrow> int \<Rightarrow> rat list" where
  "time_axis dur fa =
     map (\<lambda>i. of_nat i * (1 / of_int fa)) [0..<arange_len dur (1 / of_int fa)]"

text \<open>\<^verbatim>\<open>frame = np.arange(0, self.duration*self.fps, self.fps_adjusted, dtype=np.int32)\<close>\<close>

definition frame_axis :: "rat \<Rightarrow> int \<Rightarrow> int \<Rightarrow> int list" where
  "frame_axis dur f fa =
     map (\<lambda>i. int i * fa) [0..<arange_len (dur * of_int f) (of_int fa)]"

text \<open>
  The two lines that build the axes, and the \<^verbatim>\<open>zip(frame, time)\<close> that the loop runs
  over. \<^verbatim>\<open>1/self.fps_adjusted\<close> raises \<^verbatim>\<open>TypeError\<close> on \<^verbatim>\<open>None\<close> and
  \<^verbatim>\<open>ZeroDivisionError\<close> on zero; \<^verbatim>\<open>self.duration*self.fps\<close> raises \<^verbatim>\<open>TypeError\<close> when
  one of them is \<^verbatim>\<open>None\<close>.
\<close>

definition merge_axis :: "Multimodal \<Rightarrow> error + (int \<times> rat) list" where
  "merge_axis m =
     (case fps_adjusted m of
        None \<Rightarrow> Inl TypeError
      | Some fa \<Rightarrow>
          (if fa = 0 then Inl ZeroDivisionError
           else
             (case duration m of
                None \<Rightarrow> Inl TypeError
              | Some dur \<Rightarrow>
                  (case fps m of
                     None \<Rightarrow> Inl TypeError
                   | Some f \<Rightarrow> Inr (zip (frame_axis dur f fa) (time_axis dur fa))))))"

subsection \<open>The three tables\<close>

text \<open>\<^verbatim>\<open>_merge_video_annotation\<close>: a dataclass instance is always true.\<close>

definition merge_video_annotation ::
  "Multimodal \<Rightarrow> IndexedFrame list \<Rightarrow> error + IndexedFrame list" where
  "merge_video_annotation m data_frames =
     (case video_annotation m of
        None \<Rightarrow> Inr data_frames
      | Some va \<Rightarrow>
          (case indexed_frame_of_dict (VideoAnnotation_asdict va) of
             Inl e \<Rightarrow> Inl e
           | Inr df \<Rightarrow> Inr (data_frames @ [df])))"

text \<open>
  \<^verbatim>\<open>if self.transcription:\<close> calls \<^verbatim>\<open>__len__\<close>; \<^verbatim>\<open>if self.audio_annotation:\<close> is false
  for \<^verbatim>\<open>None\<close> and for a tree without intervals.
\<close>

definition transcription_true :: "AudioTranscription option \<Rightarrow> error + bool" where
  "transcription_true tr =
     (case tr of
        None \<Rightarrow> Inr False
      | Some x \<Rightarrow> (case AudioTranscription_len x of Inl e \<Rightarrow> Inl e | Inr n \<Rightarrow> Inr (0 < n)))"

definition subtitles_of :: "AudioTranscription option \<Rightarrow> subtitle_store" where
  "subtitles_of tr =
     (case tr of
        None \<Rightarrow> Sequence []
      | Some x \<Rightarrow> (case subtitles x of None \<Rightarrow> Sequence [] | Some store \<Rightarrow> store))"

text \<open>The rows that the loop appends to \<^verbatim>\<open>audio_annotation_dict\<close>, one for each segment at each point.\<close>

definition audio_hits ::
  "SpeakerAnnotation \<Rightarrow> (int \<times> rat) list \<Rightarrow> (int \<times> rat \<times> SegmentData Interval) list" where
  "audio_hits tree axis =
     concat (map (\<lambda>p. map (\<lambda>seg. (fst p, snd p, seg)) (IntervalTree_at iv_begin iv_end tree (snd p))) axis)"

definition audio_annotation_dict ::
  "(int \<times> rat \<times> SegmentData Interval) list \<Rightarrow> (string \<times> pyval list) list" where
  "audio_annotation_dict hits =
     [(''frame'', map (\<lambda>h. PInt (fst h)) hits),
      (''time'', map (\<lambda>h. PFloat (fst (snd h))) hits),
      (''segment_start'', map (\<lambda>h. PFloat (iv_begin (snd (snd h)))) hits),
      (''segment_end'', map (\<lambda>h. PFloat (iv_end (snd (snd h)))) hits),
      (''segment_speaker_label'',
         map (\<lambda>h. case name (iv_data (snd (snd h))) of None \<Rightarrow> PNone | Some s \<Rightarrow> PStr s) hits)]"

text \<open>\<^verbatim>\<open>span.index == sent.index\<close>\<close>

definition index_equal :: "Subtitle \<Rightarrow> Sentiment \<Rightarrow> bool" where
  "index_equal s sent = (num_of (sent_index sent) = Some (of_int (sub_index s)))"

text \<open>
  With a sentiment annotation, at one point: the body of
  \<^verbatim>\<open>for span, sent in zip(self.transcription.subtitles[t], self.sentiment.sentiment)\<close>.
  The spans at \<^verbatim>\<open>t\<close> are paired with the sentiment records from the first one on; every
  pair gives a row of span fields, and a pair with equal indices a row of scores. The
  result is the rows and the score records that were appended.
\<close>

fun paired_rows ::
  "int \<Rightarrow> rat \<Rightarrow> (span \<times> Sentiment) list \<Rightarrow> error + (int \<times> rat \<times> Subtitle) list \<times> Sentiment list" where
  "paired_rows i t [] = Inr ([], [])"
| "paired_rows i t (p # ps) =
     (case read_span (fst p) of
        Inl e \<Rightarrow> Inl e
      | Inr s \<Rightarrow>
          (case paired_rows i t ps of
             Inl e \<Rightarrow> Inl e
           | Inr r \<Rightarrow>
               Inr ((i, t, s) # fst r,
                    (if index_equal s (snd p) then snd p # snd r else snd r))))"

fun rows_with_sentiment ::
  "subtitle_store \<Rightarrow> Sentiment list \<Rightarrow> (int \<times> rat) list \<Rightarrow>
   error + (int \<times> rat \<times> Subtitle) list \<times> Sentiment list" where
  "rows_with_sentiment store sents [] = Inr ([], [])"
| "rows_with_sentiment store sents (p # ps) =
     (case subtitles_at store (snd p) of
        Inl e \<Rightarrow> Inl e
      | Inr spans \<Rightarrow>
          (case paired_rows (fst p) (snd p) (zip spans sents) of
             Inl e \<Rightarrow> Inl e
           | Inr r1 \<Rightarrow>
               (case rows_with_sentiment store sents ps of
                  Inl e \<Rightarrow> Inl e
                | Inr r2 \<Rightarrow> Inr (fst r1 @ fst r2, snd r1 @ snd r2))))"

text \<open>
  Without one, at one point: the body of \<^verbatim>\<open>for span in self.transcription.subtitles\<close>,
  a row for every span of the collection with \<^verbatim>\<open>start <= t <= end\<close>.
\<close>

fun contained_rows :: "int \<Rightarrow> rat \<Rightarrow> span list \<Rightarrow> error + (int \<times> rat \<times> Subtitle) list" where
  "contained_rows i t [] = Inr []"
| "contained_rows i t (sp # sps) =
     (case read_span sp of
        Inl e \<Rightarrow> Inl e
      | Inr s \<Rightarrow>
          (case contained_rows i t sps of
             Inl e \<Rightarrow> Inl e
           | Inr r \<Rightarrow> Inr (if sub_start s \<le> t \<and> t \<le> sub_end s then (i, t, s) # r else r)))"

fun rows_without_sentiment ::
  "subtitle_store \<Rightarrow> (int \<times> rat) list \<Rightarrow> error + (int \<times> rat \<times> Subtitle) list" where
  "rows_without_sentiment store [] = Inr []"
| "rows_without_sentiment store (p # ps) =
     (case contained_rows (fst p) (snd p) (subtitles_iter store) of
        Inl e \<Rightarrow> Inl e
      | Inr r1 \<Rightarrow>
          (case rows_without_sentiment store ps of
             Inl e \<Rightarrow> Inl e
           | Inr r2 \<Rightarrow> Inr (r1 @ r2)))"

definition span_columns :: "(int \<times> rat \<times> Subtitle) list \<Rightarrow> (string \<times> pyval list) list" where
  "span_columns hits =
     [(''frame'', map (\<lambda>h. PInt (fst h)) hits),
      (''time'', map (\<lambda>h. PFloat (fst (snd h))) hits),
      (''span_start'', map (\<lambda>h. PFloat (sub_start (snd (snd h)))) hits),
      (''span_end'', map (\<lambda>h. PFloat (sub_end (snd (snd h)))) hits),
      (''span_text'', map (\<lambda>h. PStr (sub_content (snd (snd h)))) hits)]"

text \<open>
  \<^verbatim>\<open>text_features_dict\<close> after the loop over \<^verbatim>\<open>zip(frame, time)\<close>, or the error that
  ends the loop.
\<close>

definition text_features_dict ::
  "subtitle_store \<Rightarrow> SentimentAnnotation option \<Rightarrow> (int \<times> rat) list \<Rightarrow>
   error + (string \<times> pyval list) list" where
  "text_features_dict store sa axis =
     (case sa of
        None \<Rightarrow>
          (case rows_without_sentiment store axis of
             Inl e \<Rightarrow> Inl e
           | Inr hits \<Rightarrow> Inr (span_columns hits))
      | Some s \<Rightarrow>
          (case rows_with_sentiment store (sentiment_list s) axis of
             Inl e \<Rightarrow> Inl e
           | Inr r \<Rightarrow>
               Inr (span_columns (fst r) @
                    [(''span_sent_pos'', map pos (snd r)),
                     (''span_sent_neg'', map neg (snd r)),
                     (''span_sent_neu'', map neu (snd r))])))"

text \<open>\<^verbatim>\<open>_merge_audio_text_features\<close>: the loop first, then the tables.\<close>

definition merge_audio_text_features ::
  "Multimodal \<Rightarrow> IndexedFrame list \<Rightarrow> error + IndexedFrame list" where
  "merge_audio_text_features m data_frames =
     (case audio_annotation m of
        None \<Rightarrow> Inr data_frames
      | Some tree \<Rightarrow>
          (if tree = [] then Inr data_frames
           else
             (case merge_axis m of
                Inl e \<Rightarrow> Inl e
              | Inr axis \<Rightarrow>
                  (case transcription_true (transcription m) of
                     Inl e \<Rightarrow> Inl e
                   | Inr has_text \<Rightarrow>
                       (case (if has_text
                              then text_features_dict (subtitles_of (transcription m))
                                     (sentiment m) axis
                              else Inr []) of
                          Inl e \<Rightarrow> Inl e
                        | Inr text_dict \<Rightarrow>
                            (case indexed_frame_of_dict
                                    (audio_annotation_dict (audio_hits tree axis)) of
                               Inl e \<Rightarrow> Inl e
                             | Inr audio_df \<Rightarrow>
                                 (if has_text then
                                    (case indexed_frame_of_dict text_dict of
                                       Inl e \<Rightarrow> Inl e
                                     | Inr text_df \<Rightarrow>
                                         Inr (data_frames @ [left_join audio_df text_df]))
                                  else Inr (data_frames @ [audio_df]))))))))"

text \<open>\<^verbatim>\<open>_merge_voice_features\<close>\<close>

definition merge_voice_features ::
  "Multimodal \<Rightarrow> IndexedFrame list \<Rightarrow> error + IndexedFrame list" where
  "merge_voice_features m data_frames =
     (case voice_features m of
        None \<Rightarrow> Inr data_frames
      | Some vf \<Rightarrow>
          (case indexed_frame_of_dict (VoiceFeatures_asdict vf) of
             Inl e \<Rightarrow> Inl e
           | Inr df \<Rightarrow> Inr (data_frames @ [df])))"

text \<open>
  \<^verbatim>\<open>merge_features\<close> returns \<^verbatim>\<open>self.features\<close> and leaves the object with the field
  assigned: the result is the returned value and the object afterwards.
\<close>

definition merge_features :: "Multimodal \<Rightarrow> error + (DataFrame option \<times> Multimodal)" where
  "merge_features m =
     (case merge_video_annotation m [] of
        Inl e \<Rightarrow> Inl e
      | Inr dfs1 \<Rightarrow>
          (case merge_audio_text_features m dfs1 of
             Inl e \<Rightarrow> Inl e
           | Inr dfs2 \<Rightarrow>
               (case merge_voice_features m dfs2 of
                  Inl e \<Rightarrow> Inl e
                | Inr dfs \<Rightarrow>
                    (let m' = (case reduce left_join dfs of
                                 None \<Rightarrow> m
                               | Some t \<Rightarrow> m\<lparr> features := Some (reset_index t) \<rparr>)
                     in Inr (features m', m')))))"


section \<open>Example objects\<close>

text \<open>A speech segment from second 1 to second 2 of speaker \<^verbatim>\<open>A\<close> on channel 1.\<close>

definition example_segment :: "SegmentData Interval" where
  "example_segment =
     \<lparr> iv_begin = 1, iv_end = 2,
       iv_data = \<lparr> sd_filename = Some ''f'', channel = 1, name = Some ''A'', conf = None \<rparr> \<rparr>"

text \<open>
  A two-second recording at one frame per second with one speech segment over both
  seconds, two subtitles numbered 0 and 1, one per second, and their two sentiment
  records in the same order. The transcript is given as the interval tree that
  \<^verbatim>\<open>from_srt\<close> builds, and as a sequence of subtitles.
\<close>

definition example_speech :: SpeakerAnnotation where
  "example_speech =
     [\<lparr> iv_begin = 0, iv_end = 2,
        iv_data = \<lparr> sd_filename = Some ''f'', channel = 1, name = Some ''A'', conf = None \<rparr> \<rparr>]"

definition example_transcription :: AudioTranscription where
  "example_transcription =
     \<lparr> at_filename = ''f.srt'',
       subtitles = Some (Tree
         [\<lparr> iv_begin = 0, iv_end = 1, iv_data = \<lparr> td_index = 0, td_text = ''hello'' \<rparr> \<rparr>,
          \<lparr> iv_begin = 1, iv_end = 2, iv_data = \<lparr> td_index = 1, td_text = ''world'' \<rparr> \<rparr>]) \<rparr>"

definition example_subtitles :: "Subtitle list" where
  "example_subtitles =
     [\<lparr> sub_index = 0, sub_start = 0, sub_end = 1, sub_content = ''hello'' \<rparr>,
      \<lparr> sub_index = 1, sub_start = 1, sub_end = 2, sub_content = ''world'' \<rparr>]"

definition example_sentiment :: SentimentAnnotation where
  "example_sentiment =
     \<lparr> sentiment_list =
         [\<lparr> sent_index = PInt 0, pos = PFloat (7 / 10), neg = PFloat (1 / 10), neu = PFloat (2 / 10) \<rparr>,
          \<lparr> sent_index = PInt 1, pos = PFloat (1 / 10), neg = PFloat (7 / 10), neu = PFloat (2 / 10) \<rparr>] \<rparr>"

definition example_multimodal :: Multimodal where
  "example_multimodal =
     Multimodal_init ''f'' (Some 2) (Some 1) None None (Some example_speech) None
       (Some example_transcription) (Some example_sentiment) None"

definition example_multimodal_sequence :: Multimodal where
  "example_multimodal_sequence =
     Multimodal_init ''f'' (Some 2) (Some 1) None None (Some example_speech) None
       (Some \<lparr> at_filename = ''f.srt'', subtitles = Some (Sequence example_subtitles) \<rparr>)
       (Some example_sentiment) None"

text \<open>A video annotation of two frames, a face in the second one, and voice features of two frames.\<close>

definition example_video :: VideoAnnotation where
  "example_video =
     \<lparr> va_frame = [PInt 0, PInt 1], va_time = [PFloat 0, PFloat 1],
       face_box = [PNaN, PList [PFloat 1, PFloat 2, PFloat 3, PFloat 4]],
       face_prob = [PNaN, PFloat (9 / 10)], face_landmarks = [PNaN, PNaN],
       face_aus = [PNaN, PNaN], face_label = [PNaN, PStr ''0''],
       face_confidence = [PNaN, PNaN] \<rparr>"

definition example_voice :: VoiceFeatures where
  "example_voice =
     \<lparr> vf_frame = [PInt 0, PInt 1], vf_time = [PFloat 0, PFloat 1],
       pitch_f0 = [PFloat 110, PNaN] \<rparr>"

text \<open>A table that was assigned to \<^verbatim>\<open>features\<close> before any merge.\<close>

definition example_features :: DataFrame where
  "example_features = \<lparr> columns = [''frame'', ''time''], rows = [[PInt 0, PFloat 0]] \<rparr>"

text \<open>Containers whose arrays differ in length: two frames and one time stamp.\<close>

definition ragged_video :: VideoAnnotation where
  "ragged_video = VideoAnnotation_from_dict [''frame'' \<mapsto> [PInt 0, PInt 1], ''time'' \<mapsto> [PFloat 0]]"

definition ragged_voice :: VoiceFeatures where
  "ragged_voice = \<lparr> vf_frame = [PInt 0, PInt 1], vf_time = [PFloat 0], pitch_f0 = [] \<rparr>"

text \<open>
  A recording with video annotation, speech segments and voice features, and the three
  tables that the merge builds from them.
\<close>

definition example_recording :: Multimodal where
  "example_recording =
     Multimodal_init ''f'' (Some 2) (Some 1) None (Some example_video) (Some example_speech)
       (Some example_voice) None None None"

definition example_video_table :: IndexedFrame where
  "example_video_table =
     \<lparr> icolumns = [''face_box'', ''face_prob'', ''face_landmarks'', ''face_aus'', ''face_label'',
                   ''face_confidence''],
       irows = [((PInt 0, PFloat 0), [PNaN, PNaN, PNaN, PNaN, PNaN, PNaN]),
                ((PInt 1, PFloat 1),
                 [PList [PFloat 1, PFloat 2, PFloat 3, PFloat 4], PFloat (9 / 10), PNaN, PNaN,
                  PStr ''0'', PNaN])] \<rparr>"

definition example_speech_table :: IndexedFrame where
  "example_speech_table =
     \<lparr> icolumns = [''segment_start'', ''segment_end'', ''segment_speaker_label''],
       irows = [((PInt 0, PFloat 0), [PFloat 0, PFloat 2, PStr ''A'']),
                ((PInt 1, PFloat 1), [PFloat 0, PFloat 2, PStr ''A''])] \<rparr>"

definition example_voice_table :: IndexedFrame where
  "example_voice_table =
     \<lparr> icolumns = [''pitch_f0''],
       irows = [((PInt 0, PFloat 0), [PFloat 110]), ((PInt 1, PFloat 1), [PNaN])] \<rparr>"

text \<open>
  The example recording without the sentiment records, its transcript a sequence of
  subtitles; and the example recording with the transcript alone.
\<close>

definition example_without_sentiment :: Multimodal where
  "example_without_sentiment =
     Multimodal_init ''f'' (Some 2) (Some 1) None None (Some example_speech) None
       (Some \<lparr> at_filename = ''f.srt'', subtitles = Some (Sequence example_subtitles) \<rparr>)
       None None"

definition example_transcript_only :: Multimodal where
  "example_transcript_only =
     Multimodal_init ''f'' (Some 2) (Some 1) None None None None
       (Some \<lparr> at_filename = ''f.srt'', subtitles = Some (Sequence example_subtitles) \<rparr>)
       None None"

section \<open>JSON record files\<close>

lemma filter_fields_add:
  "dom e \<inter> set names = {} \<Longrightarrow> filter_fields names (d ++ e) = filter_fields names d"
  by (auto simp: filter_fields_def map_add_def fun_eq_iff split: option.splits)

lemma Sentiment_of_item_asdict: "Sentiment_of_item (Sentiment_asdict s) = Inr s"
  by (simp add: Sentiment_of_item_def Sentiment_asdict_def subscript_def)

lemma Sentiment_of_items_asdict: "Sentiment_of_items (map Sentiment_asdict xs) = Inr xs"
  by (induction xs) (simp_all add: Sentiment_of_item_asdict)

lemma VideoAnnotation_write_load:
  "VideoAnnotation_from_json (VideoAnnotation_write_json va) = va"
  by (simp add: VideoAnnotation_from_json_def VideoAnnotation_write_json_def
      VideoAnnotation_from_dict_def VideoAnnotation_init_def filter_fields_def
      VideoAnnotation_field_names_def VideoAnnotation_asdict_def field_or_default_def)

lemma VoiceFeatures_write_load:
  "VoiceFeatures_from_json (VoiceFeatures_write_json vf) = Inr vf"
  by (simp add: VoiceFeatures_from_json_def VoiceFeatures_write_json_def
      VoiceFeatures_from_dict_def VoiceFeatures_init_def filter_fields_def
      VoiceFeatures_field_names_def VoiceFeatures_asdict_def field_or_default_def)

lemma SentimentAnnotation_write_load:
  "SentimentAnnotation_from_json (SentimentAnnotation_write_json sa) = Inr sa"
  by (simp add: SentimentAnnotation_from_json_def SentimentAnnotation_write_json_def
      SentimentAnnotation_from_dict_def filter_fields_def SentimentAnnotation_field_names_def
      SentimentAnnotation_asdict_def Sentiment_of_items_asdict)

text \<open>
  Claim C7. Writing a \<^verbatim>\<open>VideoAnnotation\<close>, a \<^verbatim>\<open>VoiceFeatures\<close> or a
  \<^verbatim>\<open>SentimentAnnotation\<close> to a JSON file and loading the file gives the instance back,
  field by field (a \<^verbatim>\<open>nan\<close> is read back as \<^verbatim>\<open>nan\<close>). Keys \<open>e\<close> that are not fields of
  the container are ignored by the loader: a record \<open>d\<close> loads to the same result with
  and without them, and a written instance to which such keys were added loads to the
  instance.
\<close>

theorem json_round_trip_ignores_unknown_keys:
  "VideoAnnotation_from_json (VideoAnnotation_write_json va) = va \<and>
   VoiceFeatures_from_json (VoiceFeatures_write_json vf) = Inr vf \<and>
   SentimentAnnotation_from_json (SentimentAnnotation_write_json sa) = Inr sa \<and>
   (dom e \<inter> set VideoAnnotation_field_names = {} \<longrightarrow>
      VideoAnnotation_from_json (d ++ e) = VideoAnnotation_from_json d \<and>
      VideoAnnotation_from_json (VideoAnnotation_write_json va ++ e) = va) \<and>
   (dom e \<inter> set VoiceFeatures_field_names = {} \<longrightarrow>
      VoiceFeatures_from_json (d ++ e) = VoiceFeatures_from_json d \<and>
      VoiceFeatures_from_json (VoiceFeatures_write_json vf ++ e) = Inr vf) \<and>
   (dom e \<inter> set SentimentAnnotation_field_names = {} \<longrightarrow>
      SentimentAnnotation_from_json (d ++ e) = SentimentAnnotation_from_json d \<and>
      SentimentAnnotation_from_json (SentimentAnnotation_write_json sa ++ e) = Inr sa)"
proof -
  have a: "VideoAnnotation_from_json (d' ++ e) = VideoAnnotation_from_json d'"
    if "dom e \<inter> set VideoAnnotation_field_names = {}" for d'
    using that
    by (simp add: VideoAnnotation_from_json_def VideoAnnotation_from_dict_def filter_fields_add)
  have b: "VoiceFeatures_from_json (d' ++ e) = VoiceFeatures_from_json d'"
    if "dom e \<inter> set VoiceFeatures_field_names = {}" for d'
    using that
    by (simp add: VoiceFeatures_from_json_def VoiceFeatures_from_dict_def filter_fields_add)
  have c: "SentimentAnnotation_from_json (d' ++ e) = SentimentAnnotation_from_json d'"
    if "dom e \<inter> set SentimentAnnotation_field_names = {}" for d'
    using that
    by (simp add: SentimentAnnotation_from_json_def SentimentAnnotation_from_dict_def
        filter_fields_add)
  show ?thesis
    using a b c
    by (simp add: VideoAnnotation_write_load VoiceFeatures_write_load
        SentimentAnnotation_write_load)
qed

theorem json_round_trip_ignores_unknown_keys_witness:
  "dom [''version'' \<mapsto> [PInt 2]] \<inter> set VideoAnnotation_field_names = {} \<and>
   dom [''version'' \<mapsto> [PInt 2]] \<inter> set VoiceFeatures_field_names = {} \<and>
   dom [''version'' \<mapsto> [PInt 2]] \<inter> set SentimentAnnotation_field_names = {} \<and>
   VideoAnnotation_from_json
     (VideoAnnotation_write_json example_video ++ [''version'' \<mapsto> [PInt 2]]) = example_video \<and>
   VoiceFeatures_from_json
     (VoiceFeatures_write_json example_voice ++ [''version'' \<mapsto> [PInt 2]]) = Inr example_voice \<and>
   SentimentAnnotation_from_json
     (SentimentAnnotation_write_json example_sentiment ++ [''version'' \<mapsto> [PInt 2]])
     = Inr example_sentiment"
  using json_round_trip_ignores_unknown_keys
    [of example_video example_voice example_sentiment "[''version'' \<mapsto> [PInt 2]]" Map.empty]
  by (simp add: VideoAnnotation_field_names_def VoiceFeatures_field_names_def
      SentimentAnnotation_field_names_def)

section \<open>The axes of the merge\<close>

text \<open>
  Claim C1. For a recording of 5 seconds at 30 frames per second, of which every third
  frame was kept (10 frames per second), the frame axis of the merge is not the 50 indices
  0, 3, ..., 147: the source steps by \<^verbatim>\<open>fps_adjusted\<close> itself and gives the 15 indices
  0, 10, ..., 140. Without skipped frames (\<^verbatim>\<open>fps_adjusted\<close> equal to \<^verbatim>\<open>fps\<close>) one second
  at 30 frames per second gets the single frame index 0 instead of 0, 1, ..., 29.
\<close>

theorem frame_axis_steps_by_fps_adjusted:
  "frame_axis 5 30 10 = [0, 10, 20, 30, 40, 50, 60, 70, 80, 90, 100, 110, 120, 130, 140] \<and>
   frame_axis 1 30 30 = [0]"
  by code_simp

text \<open>
  Claim C4. For the same recording the time axis has 50 points and the frame axis 15: the
  two axes do not have one length, and \<^verbatim>\<open>zip(frame, time)\<close> runs over the first 15 points
  only.
\<close>

theorem axes_differ_in_length:
  "length (time_axis 5 10) = 50 \<and> length (frame_axis 5 30 10) = 15 \<and>
   merge_axis (Multimodal_init ''f'' (Some 5) (Some 30) (Some 10) None None None None None None)
     = Inr (zip (frame_axis 5 30 10) (take 15 (time_axis 5 10)))"
  by code_simp

section \<open>RTTM files\<close>

text \<open>
  Claim C2. A collection with the one segment from second 1 to second 2 of speaker
  \<^verbatim>\<open>A\<close> is written as the line \<^verbatim>\<open>SPEAKER f 1 1.0 2.0 <NA> <NA> <NA> A <NA>\<close>: the fifth
  value is the end of the segment, not its duration, and the speaker label is the ninth of
  ten values. Reading the file back gives a segment from second 1 to second 3 without a
  speaker label.
\<close>

theorem rttm_write_read_moves_end_and_loses_label:
  "write_rttm [example_segment] = [''SPEAKER f 1 1.0 2.0 <NA> <NA> <NA> A <NA> '' @ [CHR 0x0A]] \<and>
   from_rttm (write_rttm [example_segment]) =
     Inr [\<lparr> iv_begin = 1, iv_end = 3,
            iv_data = \<lparr> sd_filename = Some ''f'', channel = 1, name = None, conf = None \<rparr> \<rparr>]"
  by (simp add: example_segment_def from_rttm_def write_rttm_def rttm_line_def segment_cols_def
      opt_col_def round_hundredths_def str_hundredths_def str_int_def digit_char_def
      segment_of_row_def row_split_def cell_at_def py_float_def py_int_def parse_decimal_def
      parse_nat_def digit_val_def IntervalTree_add_def Let_def)

section \<open>Transcript spans and sentiment in the merge\<close>

text \<open>
  Claim C3. In the example recording the subtitle numbered 0 covers second 0 and the first
  sentiment record is numbered 0. With the transcript as \<^verbatim>\<open>from_srt\<close> builds it, the
  merge gets an \<^verbatim>\<open>Interval\<close> at second 0 and raises \<^verbatim>\<open>AttributeError\<close> when it reads
  \<^verbatim>\<open>span.start\<close>; with a sequence of subtitles, \<^verbatim>\<open>subtitles[t]\<close> raises \<^verbatim>\<open>TypeError\<close>.
  No merged row carries the text and the scores. The loop body also pairs by position: the
  subtitle numbered 1, alone at second 1, meets the first sentiment record and gets a row
  without scores.
\<close>

theorem merge_with_sentiment_raises:
  "merge_axis example_multimodal = Inr [(0, 0), (1, 1)] \<and>
   subtitles_at (subtitles_of (transcription example_multimodal)) 0 =
     Inr [IntervalSpan \<lparr> iv_begin = 0, iv_end = 1,
                         iv_data = \<lparr> td_index = 0, td_text = ''hello'' \<rparr> \<rparr>] \<and>
   merge_features example_multimodal = Inl AttributeError \<and>
   merge_features example_multimodal_sequence = Inl TypeError \<and>
   paired_rows 1 1
     (zip [SubtitleSpan \<lparr> sub_index = 1, sub_start = 1, sub_end = 2, sub_content = ''world'' \<rparr>]
          (sentiment_list example_sentiment)) =
     Inr ([(1, 1, \<lparr> sub_index = 1, sub_start = 1, sub_end = 2, sub_content = ''world'' \<rparr>)], [])"
  by code_simp

section \<open>Merging without modalities\<close>

lemma merge_features_no_tables:
  assumes "video_annotation m = None" and "audio_annotation m = None"
    and "voice_features m = None"
  shows "merge_features m = Inr (features m, m)"
  using assms
  by (simp add: merge_features_def merge_video_annotation_def merge_audio_text_features_def
      merge_voice_features_def)

text \<open>
  Claim C10. A \<^verbatim>\<open>Multimodal\<close> constructed with a features table and without any of the
  five modality containers keeps the table: \<^verbatim>\<open>merge_features\<close> returns it and leaves
  the object as it was.
\<close>

theorem merge_features_keeps_assigned_features:
  "merge_features (Multimodal_init fname dur f fa None None None None None (Some df)) =
     Inr (Some df, Multimodal_init fname dur f fa None None None None None (Some df))"
  by (simp add: merge_features_no_tables Multimodal_init_def)

text \<open>
  Claim C6, as stated, fails: without any modality container \<^verbatim>\<open>merge_features\<close> returns
  the table that was passed to the constructor, not \<^verbatim>\<open>None\<close>.
\<close>

theorem merge_features_without_modalities_counterexample:
  "merge_features
     (Multimodal_init ''f'' None None None None None None None None (Some example_features)) =
     Inr (Some example_features,
          Multimodal_init ''f'' None None None None None None None None (Some example_features))
   \<and> Some example_features \<noteq> (None :: DataFrame option)"
  by (simp add: merge_features_no_tables Multimodal_init_def)

text \<open>
  Claim C6, amended. When all five modality containers are absent and no features table
  was assigned, \<^verbatim>\<open>merge_features\<close> returns \<^verbatim>\<open>None\<close>: no table, no error, and the
  object unchanged.
\<close>

theorem merge_features_without_modalities_is_none:
  assumes "video_annotation m = None" and "audio_annotation m = None"
    and "voice_features m = None" and "transcription m = None" and "sentiment m = None"
    and "features m = None"
  shows "merge_features m = Inr (None, m)"
  using assms merge_features_no_tables [of m] by simp

theorem merge_features_without_modalities_is_none_witness:
  "merge_features (Multimodal_init ''f'' (Some 5) (Some 30) None None None None None None None) =
     Inr (None, Multimodal_init ''f'' (Some 5) (Some 30) None None None None None None None)"
  using merge_features_without_modalities_is_none
    [of "Multimodal_init ''f'' (Some 5) (Some 30) None None None None None None None"]
  by (simp add: Multimodal_init_def)

section \<open>Containers with arrays of different lengths\<close>

lemma merge_video_annotation_ragged:
  assumes "video_annotation m = Some va"
    and "\<not> same_lengths (map snd (VideoAnnotation_asdict va))"
  shows "merge_video_annotation m dfs = Inl ValueError"
  using assms by (simp add: merge_video_annotation_def indexed_frame_of_dict_def)

lemma merge_voice_features_ragged:
  assumes "voice_features m = Some vf"
    and "\<not> same_lengths (map snd (VoiceFeatures_asdict vf))"
  shows "merge_voice_features m dfs = Inl ValueError"
  using assms by (simp add: merge_voice_features_def indexed_frame_of_dict_def)

text \<open>
  Claim C8, as stated, fails: constructing or loading a container whose arrays differ in
  length raises nothing. The loaders return the instance with two frames and one time
  stamp.
\<close>

theorem ragged_container_constructed_counterexample:
  "VoiceFeatures_from_dict [''frame'' \<mapsto> [PInt 0, PInt 1], ''time'' \<mapsto> [PFloat 0]] =
     Inr \<lparr> vf_frame = [PInt 0, PInt 1], vf_time = [PFloat 0], pitch_f0 = [] \<rparr> \<and>
   VideoAnnotation_from_dict [''frame'' \<mapsto> [PInt 0, PInt 1], ''time'' \<mapsto> [PFloat 0]] =
     \<lparr> va_frame = [PInt 0, PInt 1], va_time = [PFloat 0], face_box = [], face_prob = [],
       face_landmarks = [], face_aus = [], face_label = [], face_confidence = [] \<rparr>"
  by (simp add: VoiceFeatures_from_dict_def VoiceFeatures_init_def filter_fields_def
      VoiceFeatures_field_names_def VideoAnnotation_from_dict_def VideoAnnotation_init_def
      VideoAnnotation_field_names_def field_or_default_def)

text \<open>
  Claim C8, amended. The error comes when \<^verbatim>\<open>merge_features\<close> builds the table of the
  container: with a video annotation whose arrays differ in length it raises
  \<^verbatim>\<open>ValueError\<close>; with such voice features it raises an error too, and that error is
  \<^verbatim>\<open>ValueError\<close> when no video and no audio annotation come first. No table is made
  from a part of the arrays.
\<close>

theorem merge_features_rejects_ragged_containers:
  "(video_annotation m = Some va \<and> \<not> same_lengths (map snd (VideoAnnotation_asdict va)) \<longrightarrow>
      merge_features m = Inl ValueError) \<and>
   (voice_features m = Some vf \<and> \<not> same_lengths (map snd (VoiceFeatures_asdict vf)) \<longrightarrow>
      (\<exists>e. merge_features m = Inl e) \<and>
      (video_annotation m = None \<and> audio_annotation m = None \<longrightarrow>
         merge_features m = Inl ValueError))"
proof (intro conjI impI)
  assume "video_annotation m = Some va \<and> \<not> same_lengths (map snd (VideoAnnotation_asdict va))"
  then show "merge_features m = Inl ValueError"
    by (simp add: merge_features_def merge_video_annotation_ragged)
next
  assume h: "voice_features m = Some vf \<and> \<not> same_lengths (map snd (VoiceFeatures_asdict vf))"
  then have r: "merge_voice_features m dfs = Inl ValueError" for dfs
    by (simp add: merge_voice_features_ragged)
  show "\<exists>e. merge_features m = Inl e"
    by (simp add: merge_features_def r split: sum.splits)
  assume "video_annotation m = None \<and> audio_annotation m = None"
  then show "merge_features m = Inl ValueError"
    by (simp add: merge_features_def r merge_video_annotation_def merge_audio_text_features_def)
qed

theorem merge_features_rejects_ragged_containers_witness:
  "\<not> same_lengths (map snd (VideoAnnotation_asdict ragged_video)) \<and>
   \<not> same_lengths (map snd (VoiceFeatures_asdict ragged_voice)) \<and>
   merge_features
     (Multimodal_init ''f'' None None None (Some ragged_video) None None None None None) =
     Inl ValueError \<and>
   merge_features
     (Multimodal_init ''f'' None None None None None (Some ragged_voice) None None None) =
     Inl ValueError"
proof -
  have a: "\<not> same_lengths (map snd (VideoAnnotation_asdict ragged_video))"
    by (simp add: same_lengths_def VideoAnnotation_asdict_def ragged_video_def
        VideoAnnotation_from_dict_def VideoAnnotation_init_def filter_fields_def
        VideoAnnotation_field_names_def field_or_default_def)
  have b: "\<not> same_lengths (map snd (VoiceFeatures_asdict ragged_voice))"
    by (simp add: same_lengths_def VoiceFeatures_asdict_def ragged_voice_def)
  show ?thesis
    using a b
      merge_features_rejects_ragged_containers
        [of "Multimodal_init ''f'' None None None (Some ragged_video) None None None None None"
            ragged_video ragged_voice]
      merge_features_rejects_ragged_containers
        [of "Multimodal_init ''f'' None None None None None (Some ragged_voice) None None None"
            ragged_video ragged_voice]
    by (simp add: Multimodal_init_def)
qed

section \<open>Joining the tables\<close>

lemma merge_video_annotation_append:
  "merge_video_annotation m dfs =
     (case merge_video_annotation m [] of Inl e \<Rightarrow> Inl e | Inr ts \<Rightarrow> Inr (dfs @ ts))"
  by (simp add: merge_video_annotation_def split: option.splits sum.splits)

lemma merge_audio_text_features_append:
  "merge_audio_text_features m dfs =
     (case merge_audio_text_features m [] of Inl e \<Rightarrow> Inl e | Inr ts \<Rightarrow> Inr (dfs @ ts))"
  by (simp add: merge_audio_text_features_def split: option.splits sum.splits)

lemma merge_voice_features_append:
  "merge_voice_features m dfs =
     (case merge_voice_features m [] of Inl e \<Rightarrow> Inl e | Inr ts \<Rightarrow> Inr (dfs @ ts))"
  by (simp add: merge_voice_features_def split: option.splits sum.splits)

lemma icolumns_left_join: "icolumns (left_join l r) = icolumns l @ icolumns r"
  by (simp add: left_join_def)

lemma icolumns_foldl_left_join:
  "icolumns (foldl left_join t ts) = icolumns t @ concat (map icolumns ts)"
  by (induction ts arbitrary: t) (simp_all add: icolumns_left_join)

lemma left_join_row_keys: "fst ` set (left_join_row r row) = {fst row}"
  by (cases "filter (\<lambda>row'. same_key (fst row) (fst row')) (irows r)")
     (auto simp: left_join_row_def image_iff)

lemma left_join_keys: "fst ` set (irows (left_join l r)) = fst ` set (irows l)"
proof -
  have "fst ` set (irows (left_join l r)) = (\<Union>row \<in> set (irows l). fst ` set (left_join_row r row))"
    by (auto simp: left_join_def)
  also have "\<dots> = fst ` set (irows l)"
    by (auto simp: left_join_row_keys)
  finally show ?thesis .
qed

lemma foldl_left_join_keys:
  "fst ` set (irows (foldl left_join t ts)) = fst ` set (irows t)"
  by (induction ts arbitrary: t) (simp_all add: left_join_keys)

lemma merge_video_annotation_length:
  "merge_video_annotation m [] = Inr vs \<Longrightarrow>
     length vs = (case video_annotation m of None \<Rightarrow> 0 | Some va \<Rightarrow> 1)"
  by (auto simp: merge_video_annotation_def split: option.splits sum.splits)

lemma merge_voice_features_length:
  "merge_voice_features m [] = Inr fs \<Longrightarrow>
     length fs = (case voice_features m of None \<Rightarrow> 0 | Some vf \<Rightarrow> 1)"
  by (auto simp: merge_voice_features_def split: option.splits sum.splits)

lemma merge_audio_text_features_length:
  "merge_audio_text_features m [] = Inr ats \<Longrightarrow>
     length ats = (case audio_annotation m of None \<Rightarrow> 0 | Some tree \<Rightarrow> if tree = [] then 0 else 1)"
  by (auto simp: merge_audio_text_features_def split: option.splits sum.splits if_splits)

text \<open>
  Claim C9. When the three steps of \<^verbatim>\<open>merge_features\<close> succeed and leave at least one
  table, the result is the left outer join, on frame and time, of the tables in the order
  video, audio and text, voice: the first table is joined with the following ones from left
  to right and its keys are the keys of the result. A video annotation or voice features
  that are absent, and speech segments that are absent or empty, leave no table, and the
  columns of the result are frame, time and the columns of the tables that are there, in
  that order.
\<close>

theorem merge_features_left_joins_present_tables:
  assumes "merge_video_annotation m [] = Inr vs"
    and "merge_audio_text_features m [] = Inr ats"
    and "merge_voice_features m [] = Inr fs"
    and "vs @ ats @ fs = t # ts"
  shows "merge_features m =
           Inr (Some (reset_index (foldl left_join t ts)),
                m\<lparr> features := Some (reset_index (foldl left_join t ts)) \<rparr>) \<and>
         columns (reset_index (foldl left_join t ts)) =
           ''frame'' # ''time'' # concat (map icolumns (vs @ ats @ fs)) \<and>
         fst ` set (irows (foldl left_join t ts)) = fst ` set (irows t) \<and>
         length vs = (case video_annotation m of None \<Rightarrow> 0 | Some va \<Rightarrow> 1) \<and>
         length ats = (case audio_annotation m of None \<Rightarrow> 0
                       | Some tree \<Rightarrow> if tree = [] then 0 else 1) \<and>
         length fs = (case voice_features m of None \<Rightarrow> 0 | Some vf \<Rightarrow> 1)"
proof -
  have a: "merge_audio_text_features m vs = Inr (vs @ ats)"
    using assms(2) by (subst merge_audio_text_features_append) simp
  have b: "merge_voice_features m (vs @ ats) = Inr (t # ts)"
    using assms(3,4) by (subst merge_voice_features_append) simp
  have "merge_features m =
           Inr (Some (reset_index (foldl left_join t ts)),
                m\<lparr> features := Some (reset_index (foldl left_join t ts)) \<rparr>)"
    by (simp add: merge_features_def assms(1) a b)
  moreover have "columns (reset_index (foldl left_join t ts)) =
           ''frame'' # ''time'' # concat (map icolumns (vs @ ats @ fs))"
    unfolding assms(4) by (simp add: reset_index_def icolumns_foldl_left_join)
  ultimately show ?thesis
    using assms(1-3)
    by (simp add: foldl_left_join_keys merge_video_annotation_length
        merge_voice_features_length merge_audio_text_features_length del: append_assoc)
qed


theorem merge_features_left_joins_present_tables_witness:
  "merge_video_annotation example_recording [] = Inr [example_video_table] \<and>
   merge_audio_text_features example_recording [] = Inr [example_speech_table] \<and>
   merge_voice_features example_recording [] = Inr [example_voice_table] \<and>
   merge_features example_recording =
     Inr (Some (reset_index
                 (foldl left_join example_video_table [example_speech_table, example_voice_table])),
          example_recording
            \<lparr> features := Some (reset_index
                 (foldl left_join example_video_table [example_speech_table, example_voice_table])) \<rparr>) \<and>
   columns (reset_index
             (foldl left_join example_video_table [example_speech_table, example_voice_table])) =
     [''frame'', ''time'', ''face_box'', ''face_prob'', ''face_landmarks'', ''face_aus'',
      ''face_label'', ''face_confidence'', ''segment_start'', ''segment_end'',
      ''segment_speaker_label'', ''pitch_f0'']"
proof -
  have h1: "merge_video_annotation example_recording [] = Inr [example_video_table]"
    by code_simp
  have h2: "merge_audio_text_features example_recording [] = Inr [example_speech_table]"
    by code_simp
  have h3: "merge_voice_features example_recording [] = Inr [example_voice_table]"
    by code_simp
  have h4: "[example_video_table] @ [example_speech_table] @ [example_voice_table] =
      example_video_table # [example_speech_table, example_voice_table]"
    by simp
  show ?thesis
    using merge_features_left_joins_present_tables [OF h1 h2 h3 h4] h1 h2 h3
    by (simp add: example_video_table_def example_speech_table_def example_voice_table_def)
qed

section \<open>Transcript spans without sentiment\<close>

lemma indexed_frame_of_span_columns:
  "indexed_frame_of_dict (span_columns hits) =
     Inr \<lparr> icolumns = [''span_start'', ''span_end'', ''span_text''],
           irows = map (\<lambda>h. ((PInt (fst h), PFloat (fst (snd h))),
                             [PFloat (sub_start (snd (snd h))), PFloat (sub_end (snd (snd h))),
                              PStr (sub_content (snd (snd h)))])) hits \<rparr>"
proof -
  have "map (\<lambda>i. ((map (\<lambda>h. PInt (fst h)) hits ! i, map (\<lambda>h. PFloat (fst (snd h))) hits ! i),
                 [map (\<lambda>h. PFloat (sub_start (snd (snd h)))) hits ! i,
                  map (\<lambda>h. PFloat (sub_end (snd (snd h)))) hits ! i,
                  map (\<lambda>h. PStr (sub_content (snd (snd h)))) hits ! i])) [0..<length hits] =
        map (\<lambda>h. ((PInt (fst h), PFloat (fst (snd h))),
                             [PFloat (sub_start (snd (snd h))), PFloat (sub_end (snd (snd h))),
                              PStr (sub_content (snd (snd h)))])) hits"
    by (rule nth_equalityI) simp_all
  then show ?thesis
    by (simp add: indexed_frame_of_dict_def span_columns_def same_lengths_def)
qed

lemma indexed_frame_of_audio_annotation_dict:
  "indexed_frame_of_dict (audio_annotation_dict hits) =
     Inr \<lparr> icolumns = [''segment_start'', ''segment_end'', ''segment_speaker_label''],
           irows = map (\<lambda>h. ((PInt (fst h), PFloat (fst (snd h))),
                             [PFloat (iv_begin (snd (snd h))), PFloat (iv_end (snd (snd h))),
                              (case name (iv_data (snd (snd h))) of None \<Rightarrow> PNone | Some s \<Rightarrow> PStr s)])) hits \<rparr>"
proof -
  have "map (\<lambda>i. ((map (\<lambda>h. PInt (fst h)) hits ! i, map (\<lambda>h. PFloat (fst (snd h))) hits ! i),
                 [map (\<lambda>h. PFloat (iv_begin (snd (snd h)))) hits ! i,
                  map (\<lambda>h. PFloat (iv_end (snd (snd h)))) hits ! i,
                  map (\<lambda>h. case name (iv_data (snd (snd h))) of None \<Rightarrow> PNone | Some s \<Rightarrow> PStr s) hits ! i])) [0..<length hits] =
        map (\<lambda>h. ((PInt (fst h), PFloat (fst (snd h))),
                             [PFloat (iv_begin (snd (snd h))), PFloat (iv_end (snd (snd h))),
                              (case name (iv_data (snd (snd h))) of None \<Rightarrow> PNone | Some s \<Rightarrow> PStr s)])) hits"
    by (rule nth_equalityI) simp_all
  then show ?thesis
    by (simp add: indexed_frame_of_dict_def audio_annotation_dict_def same_lengths_def)
qed

lemma left_join_member:
  assumes "(k, vs) \<in> set (irows l)" and "(k', ws) \<in> set (irows r)" and "same_key k k'"
  shows "(k, vs @ ws) \<in> set (irows (left_join l r))"
proof -
  let ?ms = "filter (\<lambda>row'. same_key k (fst row')) (irows r)"
  have m: "(k', ws) \<in> set ?ms" using assms(2,3) by simp
  then have "?ms \<noteq> []" by (metis empty_iff list.set(1))
  then obtain x xs where ms: "?ms = x # xs" by (cases ?ms) auto
  have "(k, vs @ ws) \<in> set (left_join_row r (k, vs))"
    using m unfolding left_join_row_def by (simp add: ms image_iff) (metis ms m set_ConsD snd_conv fst_conv)
  then show ?thesis
    using assms(1) by (auto simp: left_join_def)
qed

lemma contained_rows_subtitles:
  "contained_rows i t (map SubtitleSpan subs) =
     Inr (map (\<lambda>s. (i, t, s)) (filter (\<lambda>s. sub_start s \<le> t \<and> t \<le> sub_end s) subs))"
  by (induction subs) (simp_all add: read_span_def)

lemma rows_without_sentiment_sequence:
  "rows_without_sentiment (Sequence subs) axis =
     Inr (concat (map (\<lambda>p. map (\<lambda>s. (fst p, snd p, s))
                          (filter (\<lambda>s. sub_start s \<le> snd p \<and> snd p \<le> sub_end s) subs)) axis))"
  by (induction axis) (simp_all add: subtitles_iter_def contained_rows_subtitles)

lemma contained_member:
  "(i, t) \<in> set axis \<Longrightarrow> s \<in> set subs \<Longrightarrow> sub_start s \<le> t \<Longrightarrow> t \<le> sub_end s \<Longrightarrow>
     (i, t, s) \<in> set (concat (map (\<lambda>p. map (\<lambda>s. (fst p, snd p, s))
                          (filter (\<lambda>s. sub_start s \<le> snd p \<and> snd p \<le> sub_end s) subs)) axis))"
  by force

lemma audio_hits_member:
  "(i, t) \<in> set axis \<Longrightarrow> seg \<in> set tree \<Longrightarrow> iv_begin seg \<le> t \<Longrightarrow> t < iv_end seg \<Longrightarrow>
     (i, t, seg) \<in> set (audio_hits tree axis)"
  by (force simp: audio_hits_def IntervalTree_at_def)

text \<open>
  Claim C5, as stated, fails: in the example with a transcript and without speech segments
  three pairs of a point and a subtitle pass the containment test, but the whole of
  \<^verbatim>\<open>_merge_audio_text_features\<close> is under \<^verbatim>\<open>if self.audio_annotation:\<close>, so no table is
  made and \<^verbatim>\<open>merge_features\<close> returns \<^verbatim>\<open>None\<close>.
\<close>

theorem transcript_without_segments_counterexample:
  "rows_without_sentiment (subtitles_of (transcription example_transcript_only))
     (zip (frame_axis 2 1 1) (time_axis 2 1)) =
     Inr [(0, 0, \<lparr> sub_index = 0, sub_start = 0, sub_end = 1, sub_content = ''hello'' \<rparr>),
          (1, 1, \<lparr> sub_index = 0, sub_start = 0, sub_end = 1, sub_content = ''hello'' \<rparr>),
          (1, 1, \<lparr> sub_index = 1, sub_start = 1, sub_end = 2, sub_content = ''world'' \<rparr>)] \<and>
   merge_audio_text_features example_transcript_only [] = Inr [] \<and>
   merge_features example_transcript_only = Inr (None, example_transcript_only)"
  by code_simp

text \<open>
  Claim C5, amended. Without speech segments the transcript adds nothing to the list of
  tables. With speech segments, a transcript that is a sequence of subtitles and no
  sentiment annotation, every subtitle of the whole collection with
  \<^verbatim>\<open>start <= t <= end\<close> at a point \<^verbatim>\<open>(frame, t)\<close> of the zipped axes gives a row with its
  start, end and text in the text table, and, joined to every segment with
  \<^verbatim>\<open>begin <= t < end\<close>, a row of the table that the step appends.
\<close>

theorem transcript_spans_matched_where_segments_present:
  "(audio_annotation m = None \<longrightarrow> merge_audio_text_features m dfs = Inr dfs) \<and>
   (audio_annotation m = Some tree \<and> tree \<noteq> [] \<and> transcription m = Some tr \<and>
    subtitles tr = Some (Sequence subs) \<and> subs \<noteq> [] \<and> sentiment m = None \<and>
    merge_axis m = Inr axis \<longrightarrow>
    (\<exists>audio_df text_df.
       merge_audio_text_features m dfs = Inr (dfs @ [left_join audio_df text_df]) \<and>
       icolumns text_df = [''span_start'', ''span_end'', ''span_text''] \<and>
       (\<forall>i t s. (i, t) \<in> set axis \<and> s \<in> set subs \<and> sub_start s \<le> t \<and> t \<le> sub_end s \<longrightarrow>
          ((PInt i, PFloat t),
           [PFloat (sub_start s), PFloat (sub_end s), PStr (sub_content s)])
            \<in> set (irows text_df) \<and>
          (\<forall>seg. seg \<in> set tree \<and> iv_begin seg \<le> t \<and> t < iv_end seg \<longrightarrow>
             ((PInt i, PFloat t),
              [PFloat (iv_begin seg), PFloat (iv_end seg),
               (case name (iv_data seg) of None \<Rightarrow> PNone | Some l \<Rightarrow> PStr l),
               PFloat (sub_start s), PFloat (sub_end s), PStr (sub_content s)])
               \<in> set (irows (left_join audio_df text_df))))))"
proof (intro conjI impI)
  assume "audio_annotation m = None"
  then show "merge_audio_text_features m dfs = Inr dfs"
    by (simp add: merge_audio_text_features_def)
next
  assume h: "audio_annotation m = Some tree \<and> tree \<noteq> [] \<and> transcription m = Some tr \<and>
    subtitles tr = Some (Sequence subs) \<and> subs \<noteq> [] \<and> sentiment m = None \<and>
    merge_axis m = Inr axis"
  define hits where "hits =
     concat (map (\<lambda>p. map (\<lambda>s. (fst p, snd p, s))
                       (filter (\<lambda>s. sub_start s \<le> snd p \<and> snd p \<le> sub_end s) subs)) axis)"
  define audio_df where "audio_df =
     \<lparr> icolumns = [''segment_start'', ''segment_end'', ''segment_speaker_label''],
       irows = map (\<lambda>h. ((PInt (fst h), PFloat (fst (snd h))),
                         [PFloat (iv_begin (snd (snd h))), PFloat (iv_end (snd (snd h))),
                          (case name (iv_data (snd (snd h))) of None \<Rightarrow> PNone | Some s \<Rightarrow> PStr s)]))
                 (audio_hits tree axis) \<rparr>"
  define text_df where "text_df =
     \<lparr> icolumns = [''span_start'', ''span_end'', ''span_text''],
       irows = map (\<lambda>h. ((PInt (fst h), PFloat (fst (snd h))),
                         [PFloat (sub_start (snd (snd h))), PFloat (sub_end (snd (snd h))),
                          PStr (sub_content (snd (snd h)))]))
                 hits \<rparr>"
  have run: "merge_audio_text_features m dfs = Inr (dfs @ [left_join audio_df text_df])"
    using h
    by (simp add: merge_audio_text_features_def transcription_true_def AudioTranscription_len_def
        subtitles_of_def text_features_dict_def rows_without_sentiment_sequence
        indexed_frame_of_span_columns indexed_frame_of_audio_annotation_dict
        audio_df_def text_df_def hits_def)
  have cols: "icolumns text_df = [''span_start'', ''span_end'', ''span_text'']"
    by (simp add: text_df_def)
  have rows: "((PInt i, PFloat t),
           [PFloat (sub_start s), PFloat (sub_end s), PStr (sub_content s)])
            \<in> set (irows text_df) \<and>
          (\<forall>seg. seg \<in> set tree \<and> iv_begin seg \<le> t \<and> t < iv_end seg \<longrightarrow>
             ((PInt i, PFloat t),
              [PFloat (iv_begin seg), PFloat (iv_end seg),
               (case name (iv_data seg) of None \<Rightarrow> PNone | Some l \<Rightarrow> PStr l),
               PFloat (sub_start s), PFloat (sub_end s), PStr (sub_content s)])
               \<in> set (irows (left_join audio_df text_df)))"
    if c: "(i, t) \<in> set axis \<and> s \<in> set subs \<and> sub_start s \<le> t \<and> t \<le> sub_end s"
    for i t s
  proof (intro conjI allI impI)
    have "(i, t, s) \<in> set hits"
      unfolding hits_def using c by (intro contained_member) simp_all
    then show tr: "((PInt i, PFloat t),
           [PFloat (sub_start s), PFloat (sub_end s), PStr (sub_content s)])
            \<in> set (irows text_df)"
      by (force simp: text_df_def)
    fix seg
    assume "seg \<in> set tree \<and> iv_begin seg \<le> t \<and> t < iv_end seg"
    then have "(i, t, seg) \<in> set (audio_hits tree axis)"
      using c by (simp add: audio_hits_member)
    then have ar: "((PInt i, PFloat t),
              [PFloat (iv_begin seg), PFloat (iv_end seg),
               (case name (iv_data seg) of None \<Rightarrow> PNone | Some l \<Rightarrow> PStr l)])
            \<in> set (irows audio_df)"
      by (force simp: audio_df_def)
    have "same_key (PInt i, PFloat t) (PInt i, PFloat t)"
      by (simp add: same_key_def)
    from left_join_member [OF ar tr this]
    show "((PInt i, PFloat t),
              [PFloat (iv_begin seg), PFloat (iv_end seg),
               (case name (iv_data seg) of None \<Rightarrow> PNone | Some l \<Rightarrow> PStr l),
               PFloat (sub_start s), PFloat (sub_end s), PStr (sub_content s)])
               \<in> set (irows (left_join audio_df text_df))"
      by simp
  qed
  show "\<exists>audio_df text_df.
       merge_audio_text_features m dfs = Inr (dfs @ [left_join audio_df text_df]) \<and>
       icolumns text_df = [''span_start'', ''span_end'', ''span_text''] \<and>
       (\<forall>i t s. (i, t) \<in> set axis \<and> s \<in> set subs \<and> sub_start s \<le> t \<and> t \<le> sub_end s \<longrightarrow>
          ((PInt i, PFloat t),
           [PFloat (sub_start s), PFloat (sub_end s), PStr (sub_content s)])
            \<in> set (irows text_df) \<and>
          (\<forall>seg. seg \<in> set tree \<and> iv_begin seg \<le> t \<and> t < iv_end seg \<longrightarrow>
             ((PInt i, PFloat t),
              [PFloat (iv_begin seg), PFloat (iv_end seg),
               (case name (iv_data seg) of None \<Rightarrow> PNone | Some l \<Rightarrow> PStr l),
               PFloat (sub_start s), PFloat (sub_end s), PStr (sub_content s)])
               \<in> set (irows (left_join audio_df text_df))))"
    using run cols rows by blast
qed

theorem transcript_spans_matched_where_segments_present_witness:
  "audio_annotation example_without_sentiment = Some example_speech \<and> example_speech \<noteq> [] \<and>
   transcription example_without_sentiment =
     Some \<lparr> at_filename = ''f.srt'', subtitles = Some (Sequence example_subtitles) \<rparr> \<and>
   example_subtitles \<noteq> [] \<and>
   sentiment example_without_sentiment = None \<and>
   merge_axis example_without_sentiment = Inr [(0, 0), (1, 1)] \<and>
   (\<exists>audio_df text_df.
      merge_audio_text_features example_without_sentiment [] = Inr [left_join audio_df text_df] \<and>
      ((PInt 1, PFloat 1), [PFloat 1, PFloat 2, PStr ''world'']) \<in> set (irows text_df) \<and>
      ((PInt 1, PFloat 1), [PFloat 0, PFloat 2, PStr ''A'', PFloat 1, PFloat 2, PStr ''world''])
        \<in> set (irows (left_join audio_df text_df)))"
proof -
  let ?tr = "\<lparr> at_filename = ''f.srt'', subtitles = Some (Sequence example_subtitles) \<rparr>"
  let ?s = "\<lparr> sub_index = 1, sub_start = 1, sub_end = 2, sub_content = ''world'' \<rparr>"
  have ax: "merge_axis example_without_sentiment = Inr [(0, 0), (1, 1)]"
    by code_simp
  have h: "audio_annotation example_without_sentiment = Some example_speech \<and>
      example_speech \<noteq> [] \<and>
      transcription example_without_sentiment = Some ?tr \<and>
      subtitles ?tr = Some (Sequence example_subtitles) \<and> example_subtitles \<noteq> [] \<and>
      sentiment example_without_sentiment = None \<and>
      merge_axis example_without_sentiment = Inr [(0, 0), (1, 1)]"
    using ax
    by (simp add: example_without_sentiment_def Multimodal_init_def example_speech_def
        example_subtitles_def)
  from transcript_spans_matched_where_segments_present
    [of example_without_sentiment "[]" example_speech ?tr example_subtitles
        "[(0, 0), (1, 1)]"] h
  obtain audio_df text_df where
    run: "merge_audio_text_features example_without_sentiment [] = Inr [left_join audio_df text_df]"
    and rows: "\<And>i t s. (i, t) \<in> set [(0, 0), (1::int, 1::rat)] \<and> s \<in> set example_subtitles \<and>
          sub_start s \<le> t \<and> t \<le> sub_end s \<Longrightarrow>
          ((PInt i, PFloat t),
           [PFloat (sub_start s), PFloat (sub_end s), PStr (sub_content s)])
            \<in> set (irows text_df) \<and>
          (\<forall>seg. seg \<in> set example_speech \<and> iv_begin seg \<le> t \<and> t < iv_end seg \<longrightarrow>
             ((PInt i, PFloat t),
              [PFloat (iv_begin seg), PFloat (iv_end seg),
               (case name (iv_data seg) of None \<Rightarrow> PNone | Some l \<Rightarrow> PStr l),
               PFloat (sub_start s), PFloat (sub_end s), PStr (sub_content s)])
               \<in> set (irows (left_join audio_df text_df)))"
    by auto
  have r: "((PInt 1, PFloat 1), [PFloat 1, PFloat 2, PStr ''world'']) \<in> set (irows text_df) \<and>
      ((PInt 1, PFloat 1), [PFloat 0, PFloat 2, PStr ''A'', PFloat 1, PFloat 2, PStr ''world''])
        \<in> set (irows (left_join audio_df text_df))"
    using rows [of 1 1 ?s] by (simp add: example_speech_def example_subtitles_def)
  show ?thesis
    using h run r by blast
qed

end
